theory Spec2Isabelle
  imports Complex_Main
begin

section \<open>Python values shared by the four services\<close>

text \<open>
  Exceptions are values.  Only the classes that the modelled code can raise, and that its
  \<^verbatim>\<open>except\<close> clauses tell apart, are listed; the string is the message that
  \<^verbatim>\<open>str(e)\<close> shows (for \<^verbatim>\<open>HTTPException\<close>: status code and detail).
\<close>

datatype py_error =
    ValueError string
  | OverflowError string
  | TypeError string
  | KeyError string
  | RequestException string
  | HTTPException int string

section \<open>Agent API: the date normalizer (\<^verbatim>\<open>validate_date\<close>)\<close>

text \<open>
  A \<^verbatim>\<open>datetime\<close> whose time of day is midnight, as \<^verbatim>\<open>strptime\<close> with
  the format \<^verbatim>\<open>%Y-%m-%d\<close> returns it.
\<close>

record datetime =
  year :: nat
  month :: nat
  day :: nat

definition is_leap :: "nat \<Rightarrow> bool" where
  "is_leap y = (y mod 4 = 0 \<and> (y mod 100 \<noteq> 0 \<or> y mod 400 = 0))"

definition days_in_month :: "nat \<Rightarrow> nat \<Rightarrow> nat" where
  "days_in_month y m =
     (if m = 2 then (if is_leap y then 29 else 28)
      else if m = 4 \<or> m = 6 \<or> m = 9 \<or> m = 11 then 30 else 31)"

definition digit_val :: "char \<Rightarrow> nat option" where
  "digit_val c = map_of (zip ''0123456789'' [0, 1, 2, 3, 4, 5, 6, 7, 8, 9]) c"

definition digit_char :: "nat \<Rightarrow> char" where
  "digit_char n = ''0123456789'' ! (n mod 10)"

text \<open>The decimal digits of a number, without padding.\<close>

fun show_nat :: "nat \<Rightarrow> string" where
  "show_nat n = (if n < 10 then [digit_char n] else show_nat (n div 10) @ [digit_char n])"

declare show_nat.simps [simp del]

text \<open>
  \<^verbatim>\<open>datetime.strptime(s, "%Y-%m-%d")\<close>.  The standard library compiles the format to
  the regular expression
  \<^verbatim>\<open>(?P<Y>\d\d\d\d)-(?P<m>1[0-2]|0[1-9]|[1-9])-(?P<d>3[0-1]|[1-2]\d|0[1-9]|[1-9]| [1-9])\<close>,
  matches it at the start of the string, raises \<^verbatim>\<open>ValueError\<close> when it does not
  match or when text remains after the match, and raises \<^verbatim>\<open>ValueError\<close> again when
  the three numbers are not a date of the calendar (years run from 1 to 9999).
  Only ASCII digits are modelled.
\<close>

definition match_year :: "string \<Rightarrow> nat option" where
  "match_year tok =
     (case map digit_val tok of
        [Some a, Some b, Some c, Some d] \<Rightarrow> Some (1000 * a + 100 * b + 10 * c + d)
      | _ \<Rightarrow> None)"

definition match_month :: "string \<Rightarrow> nat option" where
  "match_month tok =
     (case map digit_val tok of
        [Some a] \<Rightarrow> if 1 \<le> a then Some a else None
      | [Some a, Some b] \<Rightarrow>
          if (a = 1 \<and> b \<le> 2) \<or> (a = 0 \<and> 1 \<le> b) then Some (10 * a + b) else None
      | _ \<Rightarrow> None)"

definition match_day :: "string \<Rightarrow> nat option" where
  "match_day tok =
     (case tok of
        [c] \<Rightarrow> (case digit_val c of Some a \<Rightarrow> if 1 \<le> a then Some a else None | None \<Rightarrow> None)
      | [c, e] \<Rightarrow>
          (case (digit_val c, digit_val e) of
             (Some a, Some b) \<Rightarrow>
               if (a = 3 \<and> b \<le> 1) \<or> a = 1 \<or> a = 2 \<or> (a = 0 \<and> 1 \<le> b)
               then Some (10 * a + b) else None
           | (None, Some b) \<Rightarrow> if c = CHR '' '' \<and> 1 \<le> b then Some b else None
           | _ \<Rightarrow> None)
      | _ \<Rightarrow> None)"

definition strptime :: "string \<Rightarrow> py_error + datetime" where
  "strptime s =
     (let bad = Inl (ValueError ''time data does not match format %Y-%m-%d'') in
      case match_year (take 4 s) of
        None \<Rightarrow> bad
      | Some y \<Rightarrow>
         (case drop 4 s of
            c # rest \<Rightarrow>
              if c \<noteq> CHR ''-'' then bad
              else
               (case (match_month (takeWhile (\<lambda>x. x \<noteq> CHR ''-'') rest),
                      dropWhile (\<lambda>x. x \<noteq> CHR ''-'') rest) of
                  (Some m, _ # dtok) \<Rightarrow>
                    (case match_day dtok of
                       None \<Rightarrow> bad
                     | Some d \<Rightarrow>
                         if y < 1 then Inl (ValueError ''year 0 is out of range'')
                         else if d \<le> days_in_month y m
                         then Inr \<lparr>year = y, month = m, day = d\<rparr>
                         else Inl (ValueError ''day is out of range for month''))
                | _ \<Rightarrow> bad)
          | [] \<Rightarrow> bad))"

text \<open>
  \<^verbatim>\<open>dt.strftime("%Y-%m-%d")\<close>, which hands the format to the C library: month and
  day are padded to two digits, the year is written as the plain decimal number, so that a
  year below 1000 has fewer than four digits (glibc; year 999 gives \<^verbatim>\<open>999-01-31\<close>).
\<close>

definition pad2 :: "nat \<Rightarrow> string" where
  "pad2 n = [digit_char (n div 10), digit_char n]"

definition strftime :: "datetime \<Rightarrow> string" where
  "strftime dt = show_nat (year dt) @ ''-'' @ pad2 (month dt) @ ''-'' @ pad2 (day dt)"

text \<open>
  \<^verbatim>\<open>dt + timedelta(days=n)\<close> and \<^verbatim>\<open>dt - timedelta(days=n)\<close>, one day at a time.
  Leaving the years 1 to 9999 raises \<^verbatim>\<open>OverflowError\<close>.
\<close>

definition next_day :: "datetime \<Rightarrow> py_error + datetime" where
  "next_day dt =
     (if day dt < days_in_month (year dt) (month dt) then Inr (dt\<lparr>day := day dt + 1\<rparr>)
      else if month dt < 12 then Inr (dt\<lparr>month := month dt + 1, day := 1\<rparr>)
      else if year dt < 9999 then Inr \<lparr>year = year dt + 1, month = 1, day = 1\<rparr>
      else Inl (OverflowError ''date value out of range''))"

definition prev_day :: "datetime \<Rightarrow> py_error + datetime" where
  "prev_day dt =
     (if 1 < day dt then Inr (dt\<lparr>day := day dt - 1\<rparr>)
      else if 1 < month dt
        then Inr (dt\<lparr>month := month dt - 1, day := days_in_month (year dt) (month dt - 1)\<rparr>)
      else if 1 < year dt then Inr \<lparr>year = year dt - 1, month = 12, day = 31\<rparr>
      else Inl (OverflowError ''date value out of range''))"

fun add_days :: "nat \<Rightarrow> datetime \<Rightarrow> py_error + datetime" where
  "add_days 0 dt = Inr dt"
| "add_days (Suc n) dt = (case next_day dt of Inl e \<Rightarrow> Inl e | Inr dt' \<Rightarrow> add_days n dt')"

fun sub_days :: "nat \<Rightarrow> datetime \<Rightarrow> py_error + datetime" where
  "sub_days 0 dt = Inr dt"
| "sub_days (Suc n) dt = (case prev_day dt of Inl e \<Rightarrow> Inl e | Inr dt' \<Rightarrow> sub_days n dt')"

text \<open>
  The body of the \<^verbatim>\<open>try\<close> block of \<^verbatim>\<open>validate_date\<close>: parse, go to the 28th,
  add four days to reach the next month, step back by that date's day of the month, and
  return the formatted end of month unless the parsed date already is it, in which case the
  input string itself is returned.
\<close>

definition validate_date_try :: "string \<Rightarrow> py_error + string" where
  "validate_date_try date_str =
     (case strptime date_str of
        Inl e \<Rightarrow> Inl e
      | Inr dt \<Rightarrow>
         (case add_days 4 (dt\<lparr>day := 28\<rparr>) of
            Inl e \<Rightarrow> Inl e
          | Inr next_month \<Rightarrow>
             (case sub_days (day next_month) next_month of
                Inl e \<Rightarrow> Inl e
              | Inr end_of_month \<Rightarrow>
                  if dt \<noteq> end_of_month then Inr (strftime end_of_month) else Inr date_str)))"

text \<open>
  \<^verbatim>\<open>except ValueError: return None\<close>.  Any other exception leaves the function.
\<close>

definition validate_date :: "string \<Rightarrow> py_error + string option" where
  "validate_date date_str =
     (case validate_date_try date_str of
        Inr s \<Rightarrow> Inr (Some s)
      | Inl (ValueError _) \<Rightarrow> Inr None
      | Inl e \<Rightarrow> Inl e)"






section \<open>Formula API and Analytics API: the metric formulas\<close>

text \<open>
  The formulas hand all their arithmetic to numpy, and nothing in them branches on a
  number: numpy answers a division by zero or the mean of an empty array with a warning
  and a value, never with an exception.  A \<^verbatim>\<open>float64\<close> result is therefore kept as the
  operation that produced it, applied to its operands: a number that came in with the
  data, or the result of one of numpy's operations.  What the operation returns in
  \<^verbatim>\<open>float64\<close> arithmetic, with its rounding, overflow and special values, is numpy's
  part and is not modelled.  Equal terms stand for equal results.
\<close>

datatype np_float =
    Float64 real
  | NpSub np_float np_float
  | NpSquare np_float
  | NpDiv np_float np_float
  | NpDivInt np_float int
  | NpSqrt np_float
  | NpSum "np_float list"
  | NpMean "np_float list"
  | NpCov "np_float list" "np_float list" nat nat

text \<open>
  \<^verbatim>\<open>np.array(xs)\<close> of a list of Python floats, and the shape of a one-dimensional
  array as numpy prints it.
\<close>

definition np_array :: "real list \<Rightarrow> np_float list" where
  "np_array xs = map Float64 xs"

definition shape :: "'a list \<Rightarrow> string" where
  "shape xs = ''('' @ show_nat (length xs) @ '',)''"

text \<open>
  An arithmetic operation on two one-dimensional arrays follows numpy's broadcasting rule:
  equal lengths go element by element, an array of length one is stretched to the length of
  the other, and any other pair of lengths raises \<^verbatim>\<open>ValueError\<close>, whose message names
  the two shapes.
\<close>

definition np_broadcast ::
  "(np_float \<Rightarrow> np_float \<Rightarrow> np_float) \<Rightarrow> np_float list \<Rightarrow> np_float list \<Rightarrow> py_error + np_float list"
where
  "np_broadcast f xs ys =
     (if length xs = length ys then Inr (map2 f xs ys)
      else if length xs = 1 then Inr (map (f (hd xs)) ys)
      else if length ys = 1 then Inr (map (\<lambda>x. f x (hd ys)) xs)
      else Inl (ValueError (''operands could not be broadcast together with shapes ''
                  @ shape xs @ '' '' @ shape ys @ '' '')))"

text \<open>
  \<^verbatim>\<open>len(xs) - 1\<close> is a Python integer, \<open>-1\<close> for the empty list.
\<close>

definition len_minus_1 :: "'a list \<Rightarrow> int" where
  "len_minus_1 xs = int (length xs) - 1"

text \<open>
  \<^verbatim>\<open>volatility\<close>, the same text in \<^verbatim>\<open>formula_api/app/services/formulas.py\<close> and in
  \<^verbatim>\<open>analytics_api/app/main.py\<close>:
  \<^verbatim>\<open>np.sqrt(np.sum((np.array(returns) - np.mean(returns)) ** 2) / (len(returns) - 1))\<close>.
\<close>

definition volatility :: "real list \<Rightarrow> np_float" where
  "volatility returns =
     NpSqrt (NpDivInt
       (NpSum (map NpSquare
          (map (\<lambda>x. NpSub x (NpMean (np_array returns))) (np_array returns))))
       (len_minus_1 returns))"

text \<open>
  \<^verbatim>\<open>np.cov(x, y)\<close> stacks the two series as rows, which raises \<^verbatim>\<open>ValueError\<close>
  when their lengths differ; \<open>NpCov xs ys i j\<close> is the entry \<open>[i, j]\<close> of the matrix it
  returns.
\<close>

definition np_cov :: "real list \<Rightarrow> real list \<Rightarrow> py_error + (nat \<Rightarrow> nat \<Rightarrow> np_float)" where
  "np_cov xs ys =
     (if length xs \<noteq> length ys
      then Inl (ValueError ''all the input array dimensions except for the concatenation axis must match exactly'')
      else Inr (NpCov (np_array xs) (np_array ys)))"

definition beta :: "real list \<Rightarrow> real list \<Rightarrow> py_error + np_float" where
  "beta portfolio_returns benchmark_returns =
     (case np_cov portfolio_returns benchmark_returns of
        Inl e \<Rightarrow> Inl e
      | Inr cov_matrix \<Rightarrow> Inr (NpDiv (cov_matrix 0 1) (cov_matrix 1 1)))"

definition sharpe_ratio :: "real list \<Rightarrow> np_float \<Rightarrow> np_float" where
  "sharpe_ratio returns risk_free_return =
     (let excess_return = map (\<lambda>x. NpSub x risk_free_return) (np_array returns);
          mean_excess_return = NpMean excess_return;
          vol = volatility returns
      in NpDiv mean_excess_return vol)"

definition tracking_error :: "real list \<Rightarrow> real list \<Rightarrow> py_error + np_float" where
  "tracking_error portfolio_returns benchmark_returns =
     (case np_broadcast NpSub (np_array portfolio_returns) (np_array benchmark_returns) of
        Inl e \<Rightarrow> Inl e
      | Inr diff \<Rightarrow>
          Inr (NpSqrt (NpDivInt
                 (NpSum (map NpSquare (map (\<lambda>x. NpSub x (NpMean diff)) diff)))
                 (len_minus_1 diff))))"

definition information_ratio :: "real list \<Rightarrow> real list \<Rightarrow> py_error + np_float" where
  "information_ratio portfolio_returns benchmark_returns =
     (case np_broadcast NpSub (np_array portfolio_returns) (np_array benchmark_returns) of
        Inl e \<Rightarrow> Inl e
      | Inr active_return \<Rightarrow>
          (let mean_active_return = NpMean active_return in
           case tracking_error portfolio_returns benchmark_returns of
             Inl e \<Rightarrow> Inl e
           | Inr te \<Rightarrow> Inr (NpDiv mean_active_return te)))"

text \<open>
  The expression that \<^verbatim>\<open>volatility\<close> and \<^verbatim>\<open>tracking_error\<close> spell out, as a function of
  the array it is applied to: the sample standard deviation with the denominator
  \<open>n - 1\<close>, in numpy's operations.  It serves to state what the formulas return.
\<close>

definition np_std :: "np_float list \<Rightarrow> np_float" where
  "np_std arr =
     NpSqrt (NpDivInt (NpSum (map NpSquare (map (\<lambda>x. NpSub x (NpMean arr)) arr)))
               (int (length arr) - 1))"

section \<open>Analytics API: \<^verbatim>\<open>compute_analytics\<close>\<close>

text \<open>Decimal text of an integer, and \<^verbatim>\<open>str(e)\<close> of an exception.\<close>

definition show_int :: "int \<Rightarrow> string" where
  "show_int i = (if i < 0 then ''-'' @ show_nat (nat (- i)) else show_nat (nat i))"

fun py_str :: "py_error \<Rightarrow> string" where
  "py_str (ValueError m) = m"
| "py_str (OverflowError m) = m"
| "py_str (TypeError m) = m"
| "py_str (KeyError k) = [CHR 0x27] @ k @ [CHR 0x27]"
| "py_str (RequestException m) = m"
| "py_str (HTTPException code detail) = show_int code @ '': '' @ detail"

text \<open>
  The tables of the storage backend, as far as the queries of this service read them:
  the ids of the rows whose name equals the given one, and the returns of an id ordered by
  month-end date, between the two optional bounds.
\<close>

record store =
  portfolio_ids :: "string option \<Rightarrow> nat list"
  portfolio_return_rows :: "nat \<Rightarrow> string option \<Rightarrow> string option \<Rightarrow> real list"
  benchmark_ids :: "string option \<Rightarrow> nat list"
  benchmark_return_rows :: "nat \<Rightarrow> string option \<Rightarrow> string option \<Rightarrow> real list"

text \<open>Python's truth value of an optional string: \<^verbatim>\<open>None\<close> and the empty string are false.\<close>

definition truthy :: "'a list option \<Rightarrow> bool" where
  "truthy v = (case v of None \<Rightarrow> False | Some s \<Rightarrow> s \<noteq> [])"

definition if_truthy :: "'a list option \<Rightarrow> 'a list option" where
  "if_truthy v = (if truthy v then v else None)"

definition fmt_opt :: "string option \<Rightarrow> string" where
  "fmt_opt v = (case v of None \<Rightarrow> ''None'' | Some s \<Rightarrow> s)"

definition get_portfolio_returns ::
  "store \<Rightarrow> string option \<Rightarrow> string option \<Rightarrow> string option \<Rightarrow> py_error + real list" where
  "get_portfolio_returns st portfolio_name start_date end_date =
     (case portfolio_ids st portfolio_name of
        [] \<Rightarrow> Inl (HTTPException 404
                 (''Portfolio '' @ [CHR 0x27] @ fmt_opt portfolio_name @ [CHR 0x27] @ '' not found''))
      | portfolio_id # _ \<Rightarrow>
          Inr (portfolio_return_rows st portfolio_id (if_truthy start_date) (if_truthy end_date)))"

definition get_benchmark_returns ::
  "store \<Rightarrow> string option \<Rightarrow> string option \<Rightarrow> string option \<Rightarrow> py_error + real list" where
  "get_benchmark_returns st benchmark_name start_date end_date =
     (case benchmark_ids st benchmark_name of
        [] \<Rightarrow> Inl (HTTPException 404
                 (''Benchmark '' @ [CHR 0x27] @ fmt_opt benchmark_name @ [CHR 0x27] @ '' not found''))
      | benchmark_id # _ \<Rightarrow>
          Inr (benchmark_return_rows st benchmark_id (if_truthy start_date) (if_truthy end_date)))"

definition get_risk_free_rate ::
  "store \<Rightarrow> string option \<Rightarrow> string option \<Rightarrow> string option \<Rightarrow> py_error + np_float" where
  "get_risk_free_rate st risk_free_portfolio_name start_date end_date =
     (case get_portfolio_returns st risk_free_portfolio_name start_date end_date of
        Inl e \<Rightarrow> Inl e
      | Inr returns \<Rightarrow> Inr (if returns \<noteq> [] then NpMean (np_array returns) else Float64 0))"

text \<open>
  \<^verbatim>\<open>results[metric] = value\<close> on a dictionary that keeps insertion order.
\<close>

fun dict_set :: "'k \<Rightarrow> 'v \<Rightarrow> ('k \<times> 'v) list \<Rightarrow> ('k \<times> 'v) list" where
  "dict_set k v [] = [(k, v)]"
| "dict_set k v ((k', v') # kvs) = (if k = k' then (k, v) # kvs else (k', v') # dict_set k v kvs)"

record analytics_result =
  a_portfolio :: "string option"
  a_benchmark :: "string option"
  a_results :: "(string \<times> np_float) list"

text \<open>The loop \<^verbatim>\<open>for metric in metrics\<close> with its chain of \<^verbatim>\<open>if\<close>/\<^verbatim>\<open>elif\<close>.\<close>

fun metric_loop ::
  "real list \<Rightarrow> real list \<Rightarrow> np_float \<Rightarrow> string list \<Rightarrow> (string \<times> np_float) list
     \<Rightarrow> py_error + (string \<times> np_float) list" where
  "metric_loop portfolio_returns benchmark_returns risk_free_rate [] res = Inr res"
| "metric_loop portfolio_returns benchmark_returns risk_free_rate (metric # rest) res =
     (if metric = ''volatility'' then
        metric_loop portfolio_returns benchmark_returns risk_free_rate rest
          (dict_set metric (volatility portfolio_returns) res)
      else if metric = ''beta'' then
        (case beta portfolio_returns benchmark_returns of
           Inl e \<Rightarrow> Inl e
         | Inr v \<Rightarrow> metric_loop portfolio_returns benchmark_returns risk_free_rate rest
                     (dict_set metric v res))
      else if metric = ''sharpe_ratio'' then
        metric_loop portfolio_returns benchmark_returns risk_free_rate rest
          (dict_set metric (sharpe_ratio portfolio_returns risk_free_rate) res)
      else if metric = ''tracking_error'' then
        (case tracking_error portfolio_returns benchmark_returns of
           Inl e \<Rightarrow> Inl e
         | Inr v \<Rightarrow> metric_loop portfolio_returns benchmark_returns risk_free_rate rest
                     (dict_set metric v res))
      else if metric = ''information_ratio'' then
        (case information_ratio portfolio_returns benchmark_returns of
           Inl e \<Rightarrow> Inl e
         | Inr v \<Rightarrow> metric_loop portfolio_returns benchmark_returns risk_free_rate rest
                     (dict_set metric v res))
      else Inl (HTTPException 400 (''Unknown metric: '' @ metric)))"

text \<open>The body of the \<^verbatim>\<open>try\<close> block of \<^verbatim>\<open>compute_analytics\<close>.\<close>

definition compute_analytics_try ::
  "store \<Rightarrow> string option \<Rightarrow> string option \<Rightarrow> string option \<Rightarrow> string option \<Rightarrow> string option
     \<Rightarrow> string list \<Rightarrow> py_error + analytics_result" where
  "compute_analytics_try st portfolio_name benchmark_name risk_free_portfolio_name
       start_date end_date metrics =
     (case get_portfolio_returns st portfolio_name start_date end_date of
        Inl e \<Rightarrow> Inl e
      | Inr portfolio_returns \<Rightarrow>
         (case (if truthy benchmark_name
                then get_benchmark_returns st benchmark_name start_date end_date else Inr []) of
            Inl e \<Rightarrow> Inl e
          | Inr benchmark_returns \<Rightarrow>
             (case (if truthy risk_free_portfolio_name
                    then get_risk_free_rate st risk_free_portfolio_name start_date end_date
                    else Inr (Float64 0)) of
                Inl e \<Rightarrow> Inl e
              | Inr risk_free_rate \<Rightarrow>
                 (case metric_loop portfolio_returns benchmark_returns risk_free_rate metrics [] of
                    Inl e \<Rightarrow> Inl e
                  | Inr res \<Rightarrow>
                      Inr \<lparr>a_portfolio = portfolio_name, a_benchmark = benchmark_name,
                           a_results = res\<rparr>))))"

text \<open>
  \<^verbatim>\<open>except Exception as e: raise HTTPException(status_code=500, detail=str(e))\<close>.
  \<^verbatim>\<open>HTTPException\<close> is a subclass of \<^verbatim>\<open>Exception\<close>, so the clause also catches the
  exceptions with status 400 and 404 raised inside the block.
\<close>

definition compute_analytics ::
  "store \<Rightarrow> string option \<Rightarrow> string option \<Rightarrow> string option \<Rightarrow> string option \<Rightarrow> string option
     \<Rightarrow> string list \<Rightarrow> py_error + analytics_result" where
  "compute_analytics st portfolio_name benchmark_name risk_free_portfolio_name
       start_date end_date metrics =
     (case compute_analytics_try st portfolio_name benchmark_name risk_free_portfolio_name
             start_date end_date metrics of
        Inl e \<Rightarrow> Inl (HTTPException 500 (py_str e))
      | Inr r \<Rightarrow> Inr r)"

text \<open>The fixed vocabulary of metric identifiers, and a store with one portfolio.\<close>

definition metric_vocabulary :: "string list" where
  "metric_vocabulary =
     [''volatility'', ''beta'', ''sharpe_ratio'', ''tracking_error'', ''information_ratio'']"

definition example_store :: store where
  "example_store =
     \<lparr>portfolio_ids = (\<lambda>n. if n = Some ''Growth Plus'' then [1] else []),
      portfolio_return_rows = (\<lambda>_ _ _. [1/100, 2/100, -1/100, 3/100]),
      benchmark_ids = (\<lambda>n. if n = Some ''MSCI World'' then [1] else []),
      benchmark_return_rows = (\<lambda>_ _ _. [2/100, 1/100, 0, 2/100])\<rparr>"

section \<open>Agent API: parameters, completeness check and chat endpoint\<close>

subsection \<open>Strings\<close>

text \<open>
  \<^verbatim>\<open>str.replace("_", " ")\<close>, \<^verbatim>\<open>str.capitalize\<close>, \<^verbatim>\<open>str.title\<close> and
  \<^verbatim>\<open>sep.join\<close>, on ASCII letters.
\<close>

definition to_upper :: "char \<Rightarrow> char" where
  "to_upper c =
     (case map_of (zip ''abcdefghijklmnopqrstuvwxyz'' ''ABCDEFGHIJKLMNOPQRSTUVWXYZ'') c of
        None \<Rightarrow> c | Some u \<Rightarrow> u)"

definition to_lower :: "char \<Rightarrow> char" where
  "to_lower c =
     (case map_of (zip ''ABCDEFGHIJKLMNOPQRSTUVWXYZ'' ''abcdefghijklmnopqrstuvwxyz'') c of
        None \<Rightarrow> c | Some l \<Rightarrow> l)"

definition is_cased :: "char \<Rightarrow> bool" where
  "is_cased c = (c \<in> set ''abcdefghijklmnopqrstuvwxyzABCDEFGHIJKLMNOPQRSTUVWXYZ'')"

definition replace_underscores :: "string \<Rightarrow> string" where
  "replace_underscores s = map (\<lambda>c. if c = CHR ''_'' then CHR '' '' else c) s"

definition capitalize :: "string \<Rightarrow> string" where
  "capitalize s = (case s of [] \<Rightarrow> [] | c # cs \<Rightarrow> to_upper c # map to_lower cs)"

fun title_from :: "bool \<Rightarrow> string \<Rightarrow> string" where
  "title_from prev_cased [] = []"
| "title_from prev_cased (c # cs) =
     (if is_cased c then (if prev_cased then to_lower c else to_upper c) # title_from True cs
      else c # title_from False cs)"

definition title :: "string \<Rightarrow> string" where
  "title s = title_from False s"

fun join :: "string \<Rightarrow> string list \<Rightarrow> string" where
  "join sep [] = []"
| "join sep [x] = x"
| "join sep (x # y # ys) = x @ sep @ join sep (y # ys)"

subsection \<open>Parameters extracted by the language model\<close>

text \<open>
  The extracted parameters are the dictionary that \<^verbatim>\<open>json.loads\<close> returns: a key can be
  absent, can hold \<^verbatim>\<open>null\<close>, or can hold a value (names and dates are strings, the metrics
  a list of strings).  \<^verbatim>\<open>params.get(k)\<close> is \<^verbatim>\<open>None\<close> in the first two cases.
\<close>

datatype 'a field = Absent | Null | Present 'a

record params =
  portfolio_name :: "string field"
  benchmark_name :: "string field"
  risk_free_portfolio_name :: "string field"
  start_date :: "string field"
  end_date :: "string field"
  metrics :: "string list field"

definition get :: "'a field \<Rightarrow> 'a option" where
  "get f = (case f of Present v \<Rightarrow> Some v | _ \<Rightarrow> None)"

definition METRICS_REQUIREMENTS :: "(string \<times> string list) list" where
  "METRICS_REQUIREMENTS =
     [(''volatility'', [''portfolio_name'', ''start_date'', ''end_date'']),
      (''beta'', [''portfolio_name'', ''benchmark_name'', ''start_date'', ''end_date'']),
      (''sharpe_ratio'', [''portfolio_name'', ''risk_free_portfolio_name'', ''start_date'', ''end_date'']),
      (''tracking_error'', [''portfolio_name'', ''benchmark_name'', ''start_date'', ''end_date'']),
      (''information_ratio'', [''portfolio_name'', ''benchmark_name'', ''start_date'', ''end_date''])]"

definition FALLBACK_PORTFOLIOS :: "string list" where
  "FALLBACK_PORTFOLIOS =
     [''Growth Plus'', ''Global Dividend'', ''Secure Income'', ''Global Macro Opportunities'']"

definition FALLBACK_BENCHMARKS :: "string list" where
  "FALLBACK_BENCHMARKS = [''Secure Income Benchmark'', ''MSCI World'', ''S&P 500'']"

text \<open>
  The truth value of \<^verbatim>\<open>params.get(r)\<close> for a key \<open>r\<close>; a key that the record does not
  have gives \<^verbatim>\<open>None\<close>, which is false.
\<close>

definition param_truthy :: "params \<Rightarrow> string \<Rightarrow> bool" where
  "param_truthy p r =
     (if r = ''portfolio_name'' then truthy (get (portfolio_name p))
      else if r = ''benchmark_name'' then truthy (get (benchmark_name p))
      else if r = ''risk_free_portfolio_name'' then truthy (get (risk_free_portfolio_name p))
      else if r = ''start_date'' then truthy (get (start_date p))
      else if r = ''end_date'' then truthy (get (end_date p))
      else if r = ''metrics'' then truthy (get (metrics p))
      else False)"

definition requirements :: "string \<Rightarrow> string list" where
  "requirements metric = (case map_of METRICS_REQUIREMENTS metric of None \<Rightarrow> [] | Some req \<Rightarrow> req)"

text \<open>
  \<^verbatim>\<open>check_completeness\<close>.  \<^verbatim>\<open>params.get("metrics", [])\<close> is the empty list when the key
  is absent and \<^verbatim>\<open>None\<close> when the key holds \<^verbatim>\<open>null\<close>; iterating over \<^verbatim>\<open>None\<close>
  raises \<^verbatim>\<open>TypeError\<close>.  \<^verbatim>\<open>list(set(missing))\<close> removes duplicates and leaves the order
  unspecified; the model keeps one order, and no statement below depends on it.
\<close>

definition not_iterable :: string where
  "not_iterable = [CHR 0x27] @ ''NoneType'' @ [CHR 0x27] @ '' object is not iterable''"

definition check_completeness :: "params \<Rightarrow> py_error + string list" where
  "check_completeness p =
     (case metrics p of
        Null \<Rightarrow> Inl (TypeError not_iterable)
      | f \<Rightarrow>
         (let ms = (case f of Present l \<Rightarrow> l | _ \<Rightarrow> []);
              missing = concat (map (\<lambda>metric. filter (\<lambda>r. \<not> param_truthy p r) (requirements metric)) ms);
              missing = remdups missing
          in Inr (if ms = [] then missing @ [''metrics''] else missing)))"

subsection \<open>Collaborators of the chat endpoint\<close>

text \<open>
  The query that \<^verbatim>\<open>requests.get\<close> sends, the reply of the computation backend, and the
  decoded body of a reply with status 200, which has the three members that
  \<^verbatim>\<open>compute_analytics\<close> returns.  A value of the member \<^verbatim>\<open>results\<close> is a number or
  something else, kept as the text that \<^verbatim>\<open>str\<close> gives for it.
\<close>

record query =
  q_portfolio_name :: "string option"
  q_benchmark_name :: "string option"
  q_risk_free_portfolio_name :: "string option"
  q_start_date :: "string option"
  q_end_date :: "string option"
  q_metrics :: "string list option"

datatype jvalue = JNumber real | JOther string

record analytics_json =
  json_portfolio :: "string option"
  json_benchmark :: "string option"
  json_results :: "(string \<times> jvalue) list"

datatype backend_reply =
    ConnectionFailed string
  | Reply int string "py_error + analytics_json"

text \<open>
  What the endpoint reads from outside: the two tables of names (no client, a failed query,
  or the rows), \<^verbatim>\<open>difflib.get_close_matches\<close> with \<^verbatim>\<open>n=5\<close> and the cutoff 0.6, the
  computation backend, and the text of a decoded body inside an f-string.
\<close>

record env =
  supabase_portfolios :: "(py_error + string list) option"
  supabase_benchmarks :: "(py_error + string list) option"
  get_close_matches :: "string \<Rightarrow> string list \<Rightarrow> string list"
  analytics_api :: "query \<Rightarrow> backend_reply"
  dict_str :: "analytics_json \<Rightarrow> string"

definition get_portfolios :: "env \<Rightarrow> string list" where
  "get_portfolios ev =
     (case supabase_portfolios ev of
        None \<Rightarrow> FALLBACK_PORTFOLIOS
      | Some (Inl exc) \<Rightarrow> FALLBACK_PORTFOLIOS
      | Some (Inr names) \<Rightarrow> if names \<noteq> [] then names else FALLBACK_PORTFOLIOS)"

definition get_benchmarks :: "env \<Rightarrow> string list" where
  "get_benchmarks ev =
     (case supabase_benchmarks ev of
        None \<Rightarrow> FALLBACK_BENCHMARKS
      | Some (Inl exc) \<Rightarrow> FALLBACK_BENCHMARKS
      | Some (Inr names) \<Rightarrow> if names \<noteq> [] then names else FALLBACK_BENCHMARKS)"

definition fuzzy_match :: "env \<Rightarrow> string \<Rightarrow> string list \<Rightarrow> string list" where
  "fuzzy_match ev name options = get_close_matches ev name options"

subsection \<open>Response composer\<close>

text \<open>
  What \<^verbatim>\<open>generate_response\<close> hands back: its three results and, in addition, the
  queries it sent to the computation backend.
\<close>

record outcome =
  out_response :: string
  out_results :: "analytics_json option"
  out_reset :: bool
  out_calls :: "query list"

text \<open>\<^verbatim>\<open>params[k] = validate_date(params[k])\<close>: \<^verbatim>\<open>None\<close> is stored as it comes.\<close>

definition store_date :: "string option \<Rightarrow> string field" where
  "store_date v = (case v of None \<Rightarrow> Null | Some s \<Rightarrow> Present s)"

text \<open>
  The text that each of the three blocks for an unresolved name appends: the close matches
  when there are any, the whole catalog otherwise.
\<close>

definition suggestion :: "env \<Rightarrow> string \<Rightarrow> string list \<Rightarrow> string \<Rightarrow> string \<Rightarrow> string" where
  "suggestion ev name options meant available =
     (let suggestions = fuzzy_match ev name options in
      if suggestions \<noteq> []
      then ''Did you mean one of these '' @ meant @ '': '' @ join '', '' suggestions @ ''? ''
      else ''Available '' @ available @ '': '' @ join '', '' options @ ''. '')"

text \<open>The branch \<^verbatim>\<open>if missing:\<close>, which asks for what is missing and calls nothing.\<close>

definition clarification :: "env \<Rightarrow> params \<Rightarrow> string list \<Rightarrow> string list \<Rightarrow> string list \<Rightarrow> string" where
  "clarification ev p missing portfolios benchmarks =
     (let missing_pcase = map (\<lambda>m. title (replace_underscores m)) missing;
          response = ''I need the following information to compute: '' @ join '', '' missing_pcase @ ''. '';
          response = (if ''portfolio_name'' \<in> set missing \<and> truthy (get (portfolio_name p))
                      then response @ suggestion ev (the (get (portfolio_name p))) portfolios ''portfolios'' ''portfolios''
                      else response);
          response = (if ''benchmark_name'' \<in> set missing \<and> truthy (get (benchmark_name p))
                      then response @ suggestion ev (the (get (benchmark_name p))) benchmarks ''benchmarks'' ''benchmarks''
                      else response);
          response = (if ''risk_free_portfolio_name'' \<in> set missing \<and> truthy (get (risk_free_portfolio_name p))
                      then response @ suggestion ev (the (get (risk_free_portfolio_name p))) portfolios
                             ''risk-free portfolios'' ''portfolios''
                      else response)
      in response)"

text \<open>
  The two assignments under \<^verbatim>\<open># Validate dates\<close>.  A date is normalized only when it
  is there; the result, also \<^verbatim>\<open>None\<close>, replaces the entry.  An exception of
  \<^verbatim>\<open>validate_date\<close> leaves the block.
\<close>

definition normalize_dates :: "params \<Rightarrow> py_error + params" where
  "normalize_dates p =
     (case (if truthy (get (start_date p))
            then (case validate_date (the (get (start_date p))) of
                    Inl e \<Rightarrow> Inl e | Inr v \<Rightarrow> Inr (p\<lparr>start_date := store_date v\<rparr>))
            else Inr p) of
        Inl e \<Rightarrow> Inl e
      | Inr p1 \<Rightarrow>
          if truthy (get (end_date p1))
          then (case validate_date (the (get (end_date p1))) of
                  Inl e \<Rightarrow> Inl e | Inr v \<Rightarrow> Inr (p1\<lparr>end_date := store_date v\<rparr>))
          else Inr p1)"

definition query_params :: "params \<Rightarrow> query" where
  "query_params p =
     \<lparr>q_portfolio_name = if_truthy (get (portfolio_name p)),
      q_benchmark_name = if_truthy (get (benchmark_name p)),
      q_risk_free_portfolio_name = if_truthy (get (risk_free_portfolio_name p)),
      q_start_date = if_truthy (get (start_date p)),
      q_end_date = if_truthy (get (end_date p)),
      q_metrics = if_truthy (get (metrics p))\<rparr>"

text \<open>
  \<^verbatim>\<open>generate_response\<close>.  In the branch that computes, every exception is caught and
  turned into the text \<^verbatim>\<open>Error: ...\<close>; \<^verbatim>\<open>params['portfolio_name']\<close> in the success
  text raises \<^verbatim>\<open>KeyError\<close> when the key is absent and reads \<^verbatim>\<open>None\<close> when it holds null.
\<close>

definition generate_response ::
  "env \<Rightarrow> params \<Rightarrow> string list \<Rightarrow> string list \<Rightarrow> string list \<Rightarrow> outcome" where
  "generate_response ev p missing portfolios benchmarks =
     (if missing \<noteq> [] then
        \<lparr>out_response = clarification ev p missing portfolios benchmarks,
         out_results = None, out_reset = False, out_calls = []\<rparr>
      else
        (case normalize_dates p of
           Inl e \<Rightarrow> \<lparr>out_response = ''Error: '' @ py_str e,
                      out_results = None, out_reset = False, out_calls = []\<rparr>
         | Inr p' \<Rightarrow>
            (case analytics_api ev (query_params p') of
               ConnectionFailed msg \<Rightarrow>
                 \<lparr>out_response = ''Error: '' @ msg,
                  out_results = None, out_reset = False, out_calls = [query_params p']\<rparr>
             | Reply status_code body decoded \<Rightarrow>
                 if status_code = 200 then
                   (case decoded of
                      Inl e \<Rightarrow> \<lparr>out_response = ''Error: '' @ py_str e,
                                 out_results = None, out_reset = False, out_calls = [query_params p']\<rparr>
                    | Inr res \<Rightarrow>
                       (case portfolio_name p' of
                          Absent \<Rightarrow>
                            \<lparr>out_response = ''Error: '' @ py_str (KeyError ''portfolio_name''),
                             out_results = None, out_reset = False, out_calls = [query_params p']\<rparr>
                        | f \<Rightarrow>
                            \<lparr>out_response = ''Computed analytics for '' @ fmt_opt (get f) @ '': ''
                                              @ dict_str ev res,
                             out_results = Some res, out_reset = True,
                             out_calls = [query_params p']\<rparr>))
                 else
                   \<lparr>out_response = ''Error computing analytics: '' @ body,
                    out_results = None, out_reset = False, out_calls = [query_params p']\<rparr>)))"

subsection \<open>Formatting a result\<close>

text \<open>
  \<^verbatim>\<open>f"{value:.6f}"\<close> of a number: rounded to the nearest multiple of one millionth, a tie
  going to the even neighbour, written with a sign for negative values, the integer part
  and six decimals.
\<close>

definition round_half_even :: "real \<Rightarrow> nat" where
  "round_half_even x =
     (let f = nat \<lfloor>x\<rfloor>; d = x - real_of_int \<lfloor>x\<rfloor> in
      if d < 1 / 2 then f else if 1 / 2 < d then f + 1 else if even f then f else f + 1)"

definition pad6 :: "nat \<Rightarrow> string" where
  "pad6 n = [digit_char (n div 100000), digit_char (n div 10000), digit_char (n div 1000),
             digit_char (n div 100), digit_char (n div 10), digit_char n]"

definition format_6f :: "real \<Rightarrow> string" where
  "format_6f x =
     (let n = round_half_even (\<bar>x\<bar> * 1000000) in
      (if x < 0 then ''-'' else []) @ show_nat (n div 1000000) @ ''.'' @ pad6 (n mod 1000000))"

text \<open>One turn of the loop over \<^verbatim>\<open>results["results"].items()\<close>.\<close>

definition format_metric :: "string \<times> jvalue \<Rightarrow> string" where
  "format_metric kv =
     (case kv of
        (key, JNumber v) \<Rightarrow> capitalize (replace_underscores key) @ '' is '' @ format_6f v
      | (key, JOther v) \<Rightarrow> capitalize (replace_underscores key) @ '' is '' @ v)"

subsection \<open>The chat endpoint\<close>

record ChatResponse =
  response :: string
  parameters :: "params option"
  results :: "analytics_json option"
  reset_history :: bool

text \<open>
  The missing fields of the turn: \<^verbatim>\<open>check_completeness\<close>, then one name after the other
  that is there and is not in its catalog.
\<close>

definition chat_missing :: "string list \<Rightarrow> string list \<Rightarrow> params \<Rightarrow> py_error + string list" where
  "chat_missing portfolios benchmarks p =
     (case check_completeness p of
        Inl e \<Rightarrow> Inl e
      | Inr missing \<Rightarrow>
         (let missing = (if truthy (get (portfolio_name p)) \<and> the (get (portfolio_name p)) \<notin> set portfolios
                         then missing @ [''portfolio_name''] else missing);
              missing = (if truthy (get (benchmark_name p)) \<and> the (get (benchmark_name p)) \<notin> set benchmarks
                         then missing @ [''benchmark_name''] else missing);
              missing = (if truthy (get (risk_free_portfolio_name p))
                            \<and> the (get (risk_free_portfolio_name p)) \<notin> set portfolios
                         then missing @ [''risk_free_portfolio_name''] else missing)
          in Inr missing))"

text \<open>
  \<^verbatim>\<open>chat\<close>, from the extracted parameters on.  A flag that comes back true is cleared
  after the local copy of the request has been emptied.  The decoded body of a success is a
  dictionary with three members, hence true in \<^verbatim>\<open>if results:\<close>.  The parameters are
  returned only when something is missing, and in that branch \<^verbatim>\<open>generate_response\<close>
  has not changed them.
\<close>

definition chat :: "env \<Rightarrow> params \<Rightarrow> py_error + ChatResponse" where
  "chat ev p =
     (let portfolios = get_portfolios ev; benchmarks = get_benchmarks ev in
      case chat_missing portfolios benchmarks p of
        Inl e \<Rightarrow> Inl e
      | Inr missing \<Rightarrow>
         (let out = generate_response ev p missing portfolios benchmarks;
              reset_history = (if out_reset out then False else out_reset out);
              response_text =
                (case out_results out of
                   Some res \<Rightarrow> join ''; '' (map format_metric (json_results res))
                 | None \<Rightarrow> out_response out)
          in Inr \<lparr>response = response_text,
                  parameters = (if missing \<noteq> [] then Some p else None),
                  results = out_results out,
                  reset_history = reset_history\<rparr>))"

text \<open>
  The rendering of a result as the specification words it, in title case, and an
  environment and a complete request for the examples.
\<close>

definition spec_format_metric :: "string \<times> jvalue \<Rightarrow> string" where
  "spec_format_metric kv =
     (case kv of
        (key, JNumber v) \<Rightarrow> title (replace_underscores key) @ '' is '' @ format_6f v
      | (key, JOther v) \<Rightarrow> title (replace_underscores key) @ '' is '' @ v)"

definition example_json :: analytics_json where
  "example_json =
     \<lparr>json_portfolio = Some ''Growth Plus'', json_benchmark = None,
      json_results = [(''sharpe_ratio'', JNumber (3 / 2)), (''volatility'', JNumber (17078 / 1000000))]\<rparr>"

definition example_env :: env where
  "example_env =
     \<lparr>supabase_portfolios = None, supabase_benchmarks = None,
      get_close_matches = (\<lambda>name options. []),
      analytics_api = (\<lambda>q. Reply 200 [] (Inr example_json)),
      dict_str = (\<lambda>d. [])\<rparr>"

definition example_params :: params where
  "example_params =
     \<lparr>portfolio_name = Present ''Growth Plus'', benchmark_name = Null,
      risk_free_portfolio_name = Present ''Secure Income'',
      start_date = Present ''2023-01-15'', end_date = Present ''2023-03-31'',
      metrics = Present [''sharpe_ratio'', ''volatility'']\<rparr>"

text \<open>
  The missing-field set as the specification words it: the fields required by a requested
  metric that are not there, \<^verbatim>\<open>metrics\<close> when no metric is requested, and each of the
  three names that is there and is not found verbatim in its catalog.
\<close>

definition requested :: "params \<Rightarrow> string list" where
  "requested p = (case metrics p of Present l \<Rightarrow> l | _ \<Rightarrow> [])"

definition spec_missing :: "string list \<Rightarrow> string list \<Rightarrow> params \<Rightarrow> string set" where
  "spec_missing portfolios benchmarks p =
     (\<Union>metric \<in> set (requested p). {r \<in> set (requirements metric). \<not> param_truthy p r})
     \<union> (if requested p = [] then {''metrics''} else {})
     \<union> (if truthy (get (portfolio_name p)) \<and> the (get (portfolio_name p)) \<notin> set portfolios
        then {''portfolio_name''} else {})
     \<union> (if truthy (get (benchmark_name p)) \<and> the (get (benchmark_name p)) \<notin> set benchmarks
        then {''benchmark_name''} else {})
     \<union> (if truthy (get (risk_free_portfolio_name p))
           \<and> the (get (risk_free_portfolio_name p)) \<notin> set portfolios
        then {''risk_free_portfolio_name''} else {})"

section \<open>Properties of the date normalizer\<close>


















lemma digits2:
  assumes "(n::nat) \<le> 99"
  shows "10 * (n div 10 mod 10) + n mod 10 = n"
proof -
  have "n div 10 < 10" using assms by (simp add: less_mult_imp_div_less)
  then have "n div 10 mod 10 = n div 10" by simp
  then show ?thesis by (simp add: mult_div_mod_eq)
qed































section \<open>Properties of the metric formulas\<close>

lemma volatility_np_std: "volatility returns = np_std (np_array returns)"
  by (simp add: volatility_def np_std_def len_minus_1_def np_array_def)

lemma np_broadcast_mismatch:
  "length xs \<noteq> length ys \<Longrightarrow> length xs \<noteq> 1 \<Longrightarrow> length ys \<noteq> 1 \<Longrightarrow>
     np_broadcast f xs ys =
       Inl (ValueError (''operands could not be broadcast together with shapes ''
              @ shape xs @ '' '' @ shape ys @ '' ''))"
  by (simp add: np_broadcast_def)

lemma np_broadcast_left:
  "length ys \<noteq> 1 \<Longrightarrow> np_broadcast f [x] ys = Inr (map (f x) ys)"
  by (simp add: np_broadcast_def)

lemma np_broadcast_right:
  "length xs \<noteq> 1 \<Longrightarrow> np_broadcast f xs [y] = Inr (map (\<lambda>x. f x y) xs)"
  by (simp add: np_broadcast_def)

lemma shape_np_array: "shape (np_array xs) = ''('' @ show_nat (length xs) @ '',)''"
  by (simp add: shape_def np_array_def)

lemma tracking_error_mismatch:
  assumes "length p \<noteq> length b" "length p \<noteq> 1" "length b \<noteq> 1"
  shows "tracking_error p b =
      Inl (ValueError (''operands could not be broadcast together with shapes (''
             @ show_nat (length p) @ '',) ('' @ show_nat (length b) @ '',) ''))"
    and "information_ratio p b =
      Inl (ValueError (''operands could not be broadcast together with shapes (''
             @ show_nat (length p) @ '',) ('' @ show_nat (length b) @ '',) ''))"
proof -
  have "np_broadcast NpSub (np_array p) (np_array b) =
      Inl (ValueError (''operands could not be broadcast together with shapes (''
             @ show_nat (length p) @ '',) ('' @ show_nat (length b) @ '',) ''))"
    using assms np_broadcast_mismatch [of "np_array p" "np_array b" NpSub]
    by (simp add: shape_np_array) (simp add: np_array_def)
  then show "tracking_error p b =
      Inl (ValueError (''operands could not be broadcast together with shapes (''
             @ show_nat (length p) @ '',) ('' @ show_nat (length b) @ '',) ''))"
    and "information_ratio p b =
      Inl (ValueError (''operands could not be broadcast together with shapes (''
             @ show_nat (length p) @ '',) ('' @ show_nat (length b) @ '',) ''))"
    by (simp_all add: tracking_error_def information_ratio_def)
qed

lemma tracking_error_left:
  assumes "length b \<noteq> 1"
  shows "tracking_error [x] b = Inr (np_std (map (\<lambda>y. NpSub (Float64 x) (Float64 y)) b))"
    and "information_ratio [x] b =
      Inr (NpDiv (NpMean (map (\<lambda>y. NpSub (Float64 x) (Float64 y)) b))
                 (np_std (map (\<lambda>y. NpSub (Float64 x) (Float64 y)) b)))"
proof -
  have br: "np_broadcast NpSub (np_array [x]) (np_array b) =
      Inr (map (\<lambda>y. NpSub (Float64 x) (Float64 y)) b)"
    using assms np_broadcast_left [of "np_array b" NpSub "Float64 x"]
    by (simp add: np_array_def comp_def)
  show te: "tracking_error [x] b = Inr (np_std (map (\<lambda>y. NpSub (Float64 x) (Float64 y)) b))"
    unfolding tracking_error_def br by (simp add: np_std_def len_minus_1_def)
  show "information_ratio [x] b =
      Inr (NpDiv (NpMean (map (\<lambda>y. NpSub (Float64 x) (Float64 y)) b))
                 (np_std (map (\<lambda>y. NpSub (Float64 x) (Float64 y)) b)))"
    unfolding information_ratio_def br te by simp
qed

lemma tracking_error_right:
  assumes "length p \<noteq> 1"
  shows "tracking_error p [y] = Inr (np_std (map (\<lambda>x. NpSub (Float64 x) (Float64 y)) p))"
    and "information_ratio p [y] =
      Inr (NpDiv (NpMean (map (\<lambda>x. NpSub (Float64 x) (Float64 y)) p))
                 (np_std (map (\<lambda>x. NpSub (Float64 x) (Float64 y)) p)))"
proof -
  have br: "np_broadcast NpSub (np_array p) (np_array [y]) =
      Inr (map (\<lambda>x. NpSub (Float64 x) (Float64 y)) p)"
    using assms np_broadcast_right [of "np_array p" NpSub "Float64 y"]
    by (simp add: np_array_def comp_def)
  show te: "tracking_error p [y] = Inr (np_std (map (\<lambda>x. NpSub (Float64 x) (Float64 y)) p))"
    unfolding tracking_error_def br by (simp add: np_std_def len_minus_1_def)
  show "information_ratio p [y] =
      Inr (NpDiv (NpMean (map (\<lambda>x. NpSub (Float64 x) (Float64 y)) p))
                 (np_std (map (\<lambda>x. NpSub (Float64 x) (Float64 y)) p)))"
    unfolding information_ratio_def br te by simp
qed

lemma tracking_error_equal_lengths:
  assumes "length p = length b"
  shows "tracking_error p b = Inr (np_std (map2 (\<lambda>x y. NpSub (Float64 x) (Float64 y)) p b))"
proof -
  have "map2 NpSub (map Float64 p) (map Float64 b) = map2 (\<lambda>x y. NpSub (Float64 x) (Float64 y)) p b"
    by (simp add: zip_map_map split_def)
  then show ?thesis
    using assms by (simp add: tracking_error_def np_broadcast_def np_array_def np_std_def len_minus_1_def)
qed

lemma show_nat_2_3: "show_nat 2 = ''2''" "show_nat 3 = ''3''"
  by code_simp+

text \<open>
  C8 (amended).  For every pair of portfolio and benchmark series of different lengths,
  neither of them of length one, \<open>tracking_error\<close> and \<open>information_ratio\<close> fail with
  the \<^verbatim>\<open>ValueError\<close> of numpy's broadcasting, whose message names the two shapes;
  nothing is truncated.  When one series has a single value and the other has not, there
  is no error: the single value is subtracted from, or has subtracted from it, every value
  of the other series, and the formulas return the sample standard deviation expression of
  these differences, and their mean divided by it.
\<close>

theorem tracking_error_length_mismatch:
  "(length p \<noteq> length b \<and> length p \<noteq> 1 \<and> length b \<noteq> 1 \<longrightarrow>
      tracking_error p b =
        Inl (ValueError (''operands could not be broadcast together with shapes (''
               @ show_nat (length p) @ '',) ('' @ show_nat (length b) @ '',) '')) \<and>
      information_ratio p b =
        Inl (ValueError (''operands could not be broadcast together with shapes (''
               @ show_nat (length p) @ '',) ('' @ show_nat (length b) @ '',) ''))) \<and>
   (length b \<noteq> 1 \<longrightarrow>
      tracking_error [x] b = Inr (np_std (map (\<lambda>v. NpSub (Float64 x) (Float64 v)) b)) \<and>
      information_ratio [x] b =
        Inr (NpDiv (NpMean (map (\<lambda>v. NpSub (Float64 x) (Float64 v)) b))
                   (np_std (map (\<lambda>v. NpSub (Float64 x) (Float64 v)) b)))) \<and>
   (length p \<noteq> 1 \<longrightarrow>
      tracking_error p [y] = Inr (np_std (map (\<lambda>v. NpSub (Float64 v) (Float64 y)) p)) \<and>
      information_ratio p [y] =
        Inr (NpDiv (NpMean (map (\<lambda>v. NpSub (Float64 v) (Float64 y)) p))
                   (np_std (map (\<lambda>v. NpSub (Float64 v) (Float64 y)) p))))"
  using tracking_error_mismatch [of p b] tracking_error_left [of b x] tracking_error_right [of p y]
  by blast

theorem tracking_error_length_mismatch_witness:
  "length [1/100, 2/100 :: real] \<noteq> length [2/100, 3/100, 5/100 :: real] \<and>
   length [1/100, 2/100 :: real] \<noteq> 1 \<and> length [2/100, 3/100, 5/100 :: real] \<noteq> 1 \<and>
   tracking_error [1/100, 2/100] [2/100, 3/100, 5/100] =
     Inl (ValueError ''operands could not be broadcast together with shapes (2,) (3,) '') \<and>
   information_ratio [1/100, 2/100] [2/100, 3/100, 5/100] =
     Inl (ValueError ''operands could not be broadcast together with shapes (2,) (3,) '') \<and>
   tracking_error [1/100] [2/100, 3/100, 5/100] =
     Inr (np_std [NpSub (Float64 (1/100)) (Float64 (2/100)), NpSub (Float64 (1/100)) (Float64 (3/100)),
                  NpSub (Float64 (1/100)) (Float64 (5/100))]) \<and>
   tracking_error [1/100, 2/100] [5/100] =
     Inr (np_std [NpSub (Float64 (1/100)) (Float64 (5/100)), NpSub (Float64 (2/100)) (Float64 (5/100))])"
proof -
  have a: "length [1/100, 2/100 :: real] \<noteq> length [2/100, 3/100, 5/100 :: real] \<and>
   length [1/100, 2/100 :: real] \<noteq> 1 \<and> length [2/100, 3/100, 5/100 :: real] \<noteq> 1" by simp
  note t = tracking_error_length_mismatch [of "[1/100, 2/100]" "[2/100, 3/100, 5/100]" "1/100" "5/100"]
  have l: "length [1/100, 2/100 :: real] = 2" "length [2/100, 3/100, 5/100 :: real] = 3" by simp_all
  from t a have 1: "tracking_error [1/100, 2/100] [2/100, 3/100, 5/100] =
     Inl (ValueError ''operands could not be broadcast together with shapes (2,) (3,) '') \<and>
   information_ratio [1/100, 2/100] [2/100, 3/100, 5/100] =
     Inl (ValueError ''operands could not be broadcast together with shapes (2,) (3,) '')"
    unfolding l show_nat_2_3 by simp
  from t a have 2: "tracking_error [1/100] [2/100, 3/100, 5/100] =
     Inr (np_std [NpSub (Float64 (1/100)) (Float64 (2/100)), NpSub (Float64 (1/100)) (Float64 (3/100)),
                  NpSub (Float64 (1/100)) (Float64 (5/100))])"
    by simp
  from t a have 3: "tracking_error [1/100, 2/100] [5/100] =
     Inr (np_std [NpSub (Float64 (1/100)) (Float64 (5/100)), NpSub (Float64 (2/100)) (Float64 (5/100))])"
    by simp
  from a 1 2 3 show ?thesis by blast
qed

theorem tracking_error_broadcast_counterexample:
  "length [1/100 :: real] \<noteq> length [2/100, 3/100, 5/100 :: real] \<and>
   tracking_error [1/100] [2/100, 3/100, 5/100] =
     Inr (np_std [NpSub (Float64 (1/100)) (Float64 (2/100)), NpSub (Float64 (1/100)) (Float64 (3/100)),
                  NpSub (Float64 (1/100)) (Float64 (5/100))]) \<and>
   information_ratio [1/100] [2/100, 3/100, 5/100] =
     Inr (NpDiv (NpMean [NpSub (Float64 (1/100)) (Float64 (2/100)), NpSub (Float64 (1/100)) (Float64 (3/100)),
                         NpSub (Float64 (1/100)) (Float64 (5/100))])
                (np_std [NpSub (Float64 (1/100)) (Float64 (2/100)), NpSub (Float64 (1/100)) (Float64 (3/100)),
                         NpSub (Float64 (1/100)) (Float64 (5/100))]))"
  using tracking_error_left [of "[2/100, 3/100, 5/100]" "1/100"] by simp

section \<open>Properties of \<^verbatim>\<open>compute_analytics\<close>\<close>

lemma metric_loop_unknown:
  "m \<in> set ms \<Longrightarrow> m \<notin> set metric_vocabulary \<Longrightarrow> \<exists>e. metric_loop pr br rf ms res = Inl e"
proof (induction ms arbitrary: res)
  case Nil
  then show ?case by simp
next
  case (Cons a ms)
  show ?case
  proof (cases "a = m")
    case True
    with Cons.prems(2) show ?thesis by (simp add: metric_vocabulary_def)
  next
    case False
    with Cons.prems have "m \<in> set ms" by simp
    from Cons.IH [OF this Cons.prems(2)] show ?thesis
      by (auto split: sum.splits)
  qed
qed

lemma compute_analytics_failure_is_500:
  "compute_analytics st pn bn rf sd ed ms = Inl e \<Longrightarrow> \<exists>detail. e = HTTPException 500 detail"
  by (auto simp: compute_analytics_def split: sum.splits)

lemma unknown_metric_gives_500:
  assumes "m \<in> set ms" "m \<notin> set metric_vocabulary"
  shows "\<exists>detail. compute_analytics st pn bn rf sd ed ms = Inl (HTTPException 500 detail)"
proof -
  have ml: "\<exists>e. metric_loop pr br r ms [] = Inl e" for pr br r
    using metric_loop_unknown [OF assms] .
  define B where "B = (if truthy bn then get_benchmark_returns st bn sd ed else Inr [])"
  define R where "R = (if truthy rf then get_risk_free_rate st rf sd ed else Inr (Float64 0))"
  have "\<exists>e. compute_analytics_try st pn bn rf sd ed ms = Inl e"
  proof (cases "get_portfolio_returns st pn sd ed")
    case (Inl e)
    then show ?thesis by (simp add: compute_analytics_try_def)
  next
    case (Inr pr)
    note P = Inr
    show ?thesis
    proof (cases B)
      case (Inl e)
      with P show ?thesis by (simp add: compute_analytics_try_def B_def)
    next
      case (Inr br)
      note Bv = Inr
      show ?thesis
      proof (cases R)
        case (Inl e)
        with P Bv show ?thesis by (simp add: compute_analytics_try_def B_def R_def)
      next
        case (Inr r)
        from ml [of pr br r] obtain e where "metric_loop pr br r ms [] = Inl e" by blast
        with P Bv Inr show ?thesis by (simp add: compute_analytics_try_def B_def R_def)
      qed
    qed
  qed
  then show ?thesis by (auto simp: compute_analytics_def)
qed

lemma compute_analytics_tracking_error_mismatch:
  assumes p: "get_portfolio_returns st pn sd ed = Inr pr"
    and b: "truthy bn" "get_benchmark_returns st bn sd ed = Inr br"
    and r: "\<not> truthy rf"
    and l: "length pr \<noteq> length br" "length pr \<noteq> 1" "length br \<noteq> 1"
  shows "compute_analytics st pn bn rf sd ed [''tracking_error''] =
     Inl (HTTPException 500 (''operands could not be broadcast together with shapes (''
             @ show_nat (length pr) @ '',) ('' @ show_nat (length br) @ '',) ''))"
  using p b r tracking_error_mismatch(1) [OF l]
  by (simp add: compute_analytics_def compute_analytics_try_def)

lemma show_nat_500: "show_nat 500 = ''500''" and show_nat_400: "show_nat 400 = ''400''"
  by code_simp+

lemma compute_analytics_alpha:
  "compute_analytics example_store (Some ''Growth Plus'') None None None None [''alpha'']
     = Inl (HTTPException 500 ''400: Unknown metric: alpha'')"
  by (simp add: compute_analytics_def compute_analytics_try_def get_portfolio_returns_def
      example_store_def truthy_def show_int_def show_nat_400)

text \<open>
  C3.  A metric identifier outside the fixed vocabulary makes the loop of
  \<^verbatim>\<open>compute_analytics\<close> raise \<^verbatim>\<open>HTTPException\<close> with status 400, but the
  \<^verbatim>\<open>except Exception\<close> clause around the loop catches it and raises status 500 instead:
  for the metric \<^verbatim>\<open>alpha\<close> on a known portfolio the answer is a server error whose
  detail quotes the client error.  (\<open>unknown_metric_gives_500\<close> shows the same for
  every request that contains an unknown metric.)
\<close>

theorem compute_analytics_unknown_metric_is_500:
  "compute_analytics example_store (Some ''Growth Plus'') None None None None [''alpha'']
     = Inl (HTTPException 500 ''400: Unknown metric: alpha'')"
  by (rule compute_analytics_alpha)

section \<open>Properties of the completeness check and the chat endpoint\<close>

lemma requirements_names:
  "r \<in> set (requirements m) \<Longrightarrow>
     r \<in> {''portfolio_name'', ''benchmark_name'', ''risk_free_portfolio_name'', ''start_date'', ''end_date''}"
  by (auto simp: requirements_def METRICS_REQUIREMENTS_def split: if_splits)

lemma check_completeness_Null:
  "metrics p = Null \<Longrightarrow> check_completeness p = Inl (TypeError not_iterable)"
  by (simp add: check_completeness_def)

lemma check_completeness_Inr:
  assumes "metrics p \<noteq> Null"
  shows "check_completeness p =
     Inr (remdups (concat (map (\<lambda>metric. filter (\<lambda>r. \<not> param_truthy p r) (requirements metric)) (requested p)))
          @ (if requested p = [] then [''metrics''] else []))"
  using assms by (cases "metrics p") (simp_all add: check_completeness_def requested_def Let_def)

lemma check_completeness_set:
  assumes "check_completeness p = Inr ms"
  shows "set ms = (\<Union>metric \<in> set (requested p). {r \<in> set (requirements metric). \<not> param_truthy p r})
           \<union> (if requested p = [] then {''metrics''} else {})"
    and "distinct ms"
    and "\<forall>r \<in> set ms. \<not> param_truthy p r \<or> r = ''metrics''"
proof -
  have nn: "metrics p \<noteq> Null" using assms by (auto simp: check_completeness_def)
  note e = check_completeness_Inr [OF nn]
  from e assms show "set ms = (\<Union>metric \<in> set (requested p). {r \<in> set (requirements metric). \<not> param_truthy p r})
           \<union> (if requested p = [] then {''metrics''} else {})"
    by auto
  have "''metrics'' \<notin> set (concat (map (\<lambda>metric. filter (\<lambda>r. \<not> param_truthy p r) (requirements metric)) (requested p)))"
    using requirements_names by fastforce
  with e assms show "distinct ms" by auto
  from e assms show "\<forall>r \<in> set ms. \<not> param_truthy p r \<or> r = ''metrics''" by (auto split: if_splits)
qed

lemma param_truthy_names:
  "param_truthy p ''portfolio_name'' = truthy (get (portfolio_name p))"
  "param_truthy p ''benchmark_name'' = truthy (get (benchmark_name p))"
  "param_truthy p ''risk_free_portfolio_name'' = truthy (get (risk_free_portfolio_name p))"
  by (simp_all add: param_truthy_def)

lemma chat_missing_spec:
  assumes "metrics p \<noteq> Null"
  shows "\<exists>ms. chat_missing pf bm p = Inr ms \<and> distinct ms \<and> set ms = spec_missing pf bm p"
proof -
  obtain ms0 where c: "check_completeness p = Inr ms0"
    using check_completeness_Inr [OF assms] by blast
  note s = check_completeness_set [OF c]
  have n1: "truthy (get (portfolio_name p)) \<Longrightarrow> ''portfolio_name'' \<notin> set ms0"
    using s(3) param_truthy_names(1) [of p] by auto
  have n2: "truthy (get (benchmark_name p)) \<Longrightarrow> ''benchmark_name'' \<notin> set ms0"
    using s(3) param_truthy_names(2) [of p] by auto
  have n3: "truthy (get (risk_free_portfolio_name p)) \<Longrightarrow> ''risk_free_portfolio_name'' \<notin> set ms0"
    using s(3) param_truthy_names(3) [of p] by auto
  define a1 where "a1 = (if truthy (get (portfolio_name p)) \<and> the (get (portfolio_name p)) \<notin> set pf
      then [''portfolio_name''] else [])"
  define a2 where "a2 = (if truthy (get (benchmark_name p)) \<and> the (get (benchmark_name p)) \<notin> set bm
      then [''benchmark_name''] else [])"
  define a3 where "a3 = (if truthy (get (risk_free_portfolio_name p))
      \<and> the (get (risk_free_portfolio_name p)) \<notin> set pf then [''risk_free_portfolio_name''] else [])"
  have cm: "chat_missing pf bm p = Inr (ms0 @ a1 @ a2 @ a3)"
    by (simp add: chat_missing_def c Let_def a1_def a2_def a3_def)
  have d: "distinct (ms0 @ a1 @ a2 @ a3)"
    using s(2) n1 n2 n3 by (auto simp: a1_def a2_def a3_def)
  have sa: "set a1 = (if truthy (get (portfolio_name p)) \<and> the (get (portfolio_name p)) \<notin> set pf
        then {''portfolio_name''} else {})"
      "set a2 = (if truthy (get (benchmark_name p)) \<and> the (get (benchmark_name p)) \<notin> set bm
        then {''benchmark_name''} else {})"
      "set a3 = (if truthy (get (risk_free_portfolio_name p))
           \<and> the (get (risk_free_portfolio_name p)) \<notin> set pf
        then {''risk_free_portfolio_name''} else {})"
    by (simp_all add: a1_def a2_def a3_def)
  have st: "set (ms0 @ a1 @ a2 @ a3) = spec_missing pf bm p"
    unfolding spec_missing_def set_append s(1) sa by (simp only: Un_assoc)
  from cm d st show ?thesis by blast
qed

lemma chat_missing_Null:
  "metrics p = Null \<Longrightarrow> chat_missing pf bm p = Inl (TypeError not_iterable)"
  by (simp add: chat_missing_def check_completeness_Null)

lemma chat_Null:
  "metrics p = Null \<Longrightarrow> chat ev p = Inl (TypeError not_iterable)"
  by (simp add: chat_def chat_missing_Null Let_def)

lemma chat_Inr:
  "chat_missing (get_portfolios ev) (get_benchmarks ev) p = Inr ms \<Longrightarrow>
   chat ev p = Inr \<lparr>response =
        (case out_results (generate_response ev p ms (get_portfolios ev) (get_benchmarks ev)) of
           Some res \<Rightarrow> join ''; '' (map format_metric (json_results res))
         | None \<Rightarrow> out_response (generate_response ev p ms (get_portfolios ev) (get_benchmarks ev))),
      parameters = (if ms \<noteq> [] then Some p else None),
      results = out_results (generate_response ev p ms (get_portfolios ev) (get_benchmarks ev)),
      reset_history = False\<rparr>"
  by (simp add: chat_def Let_def)

lemma chat_Inr_iff:
  "(\<exists>r. chat ev p = Inr r) = (\<exists>ms. chat_missing (get_portfolios ev) (get_benchmarks ev) p = Inr ms)"
  by (auto simp: chat_def Let_def split: sum.splits)

lemma generate_response_reset:
  "out_reset (generate_response ev p missing pf bm) =
     (out_results (generate_response ev p missing pf bm) \<noteq> None)"
  by (simp add: generate_response_def split: sum.splits backend_reply.splits field.splits)

subsection \<open>The examples, evaluated\<close>

lemma cap1: "capitalize (replace_underscores ''sharpe_ratio'') = ''Sharpe ratio''"
  by code_simp
lemma cap2: "title (replace_underscores ''sharpe_ratio'') = ''Sharpe Ratio''"
  by code_simp
lemma cm_example: "chat_missing (get_portfolios example_env) (get_benchmarks example_env) example_params = Inr []"
  by code_simp

lemma digit_char_simps:
  "digit_char 0 = CHR ''0''" "digit_char 1 = CHR ''1''" "digit_char 2 = CHR ''2''"
  "digit_char 3 = CHR ''3''" "digit_char 4 = CHR ''4''" "digit_char 5 = CHR ''5''"
  "digit_char 6 = CHR ''6''" "digit_char 7 = CHR ''7''" "digit_char 8 = CHR ''8''"
  "digit_char 9 = CHR ''9''" "digit_char (Suc 0) = CHR ''1''"
  by (simp_all add: digit_char_def)

lemma digit_char_mod10: "digit_char (n mod 10) = digit_char n"
  by (simp add: digit_char_def)

lemma round_half_even_nat: "round_half_even (real n) = n"
  by (simp add: round_half_even_def Let_def)

lemma format_6f_millionths:
  "format_6f (real n / 1000000) = show_nat (n div 1000000) @ ''.'' @ pad6 (n mod 1000000)"
proof -
  have "\<bar>real n / 1000000\<bar> * 1000000 = real n" by simp
  then show ?thesis
    unfolding format_6f_def by (simp add: round_half_even_nat Let_def)
qed

lemma pad6_500000: "pad6 500000 = ''500000''"
  unfolding pad6_def
  apply (subst (1 2 3 4 5 6) digit_char_mod10 [symmetric])
  apply (simp add: digit_char_simps)
  done

lemma pad6_17078: "pad6 17078 = ''017078''"
  unfolding pad6_def
  apply (subst (1 2 3 4 5 6) digit_char_mod10 [symmetric])
  apply (simp add: digit_char_simps)
  done

lemma show_nat_digits: "show_nat 0 = ''0''" "show_nat 1 = ''1''" "show_nat (Suc 0) = ''1''"
  by (subst show_nat.simps, simp add: digit_char_simps)+

lemma format_6f_examples:
  "format_6f (3 / 2) = ''1.500000''" "format_6f (8539 / 500000) = ''0.017078''"
proof -
  have "format_6f (real 1500000 / 1000000) = ''1.500000''"
    unfolding format_6f_millionths by (simp add: show_nat_digits pad6_500000)
  then show "format_6f (3 / 2) = ''1.500000''" by simp
  have "format_6f (real 17078 / 1000000) = ''0.017078''"
    unfolding format_6f_millionths by (simp add: show_nat_digits pad6_17078)
  then show "format_6f (8539 / 500000) = ''0.017078''" by simp
qed

lemma vd_examples:
  "validate_date ''2023-01-15'' = Inr (Some ''2023-01-31'')"
  "validate_date ''2023-03-31'' = Inr (Some ''2023-03-31'')"
  "validate_date ''2023-13-45'' = Inr None"
  by code_simp+

lemma nd_example:
  "normalize_dates example_params =
     Inr (example_params\<lparr>start_date := Present ''2023-01-31'', end_date := Present ''2023-03-31''\<rparr>)"
  by (simp add: normalize_dates_def example_params_def get_def truthy_def vd_examples store_date_def)

lemma gr_example:
  "generate_response example_env example_params [] pf bm =
     \<lparr>out_response = ''Computed analytics for Growth Plus: '',
      out_results = Some example_json, out_reset = True,
      out_calls = [\<lparr>q_portfolio_name = Some ''Growth Plus'', q_benchmark_name = None,
         q_risk_free_portfolio_name = Some ''Secure Income'',
         q_start_date = Some ''2023-01-31'', q_end_date = Some ''2023-03-31'',
         q_metrics = Some [''sharpe_ratio'', ''volatility'']\<rparr>]\<rparr>"
  unfolding generate_response_def nd_example
  by (simp add: example_env_def example_params_def query_params_def get_def truthy_def if_truthy_def fmt_opt_def)

lemma fm_example:
  "join ''; '' (map format_metric (json_results example_json)) =
     ''Sharpe ratio is 1.500000; Volatility is 0.017078''"
  by (simp add: example_json_def format_metric_def cap1 format_6f_examples)
     (simp add: capitalize_def replace_underscores_def to_upper_def to_lower_def)

lemma spec_fm_example:
  "join ''; '' (map spec_format_metric (json_results example_json)) =
     ''Sharpe Ratio is 1.500000; Volatility is 0.017078''"
  by (simp add: example_json_def spec_format_metric_def cap2 format_6f_examples)
     (simp add: title_def replace_underscores_def to_upper_def to_lower_def is_cased_def)

lemma chat_example:
  "chat example_env example_params =
     Inr \<lparr>response = ''Sharpe ratio is 1.500000; Volatility is 0.017078'',
          parameters = None, results = Some example_json, reset_history = False\<rparr>"
  unfolding chat_Inr [OF cm_example] gr_example by (simp add: fm_example)

lemma cm_bad_date:
  "chat_missing (get_portfolios example_env) (get_benchmarks example_env)
     (example_params\<lparr>start_date := Present ''2023-13-45''\<rparr>) = Inr []"
  by code_simp

lemma cm_typo:
  "chat_missing (get_portfolios example_env) (get_benchmarks example_env)
     (example_params\<lparr>portfolio_name := Present ''Growth Plu''\<rparr>) = Inr [''portfolio_name'']"
  by code_simp

lemma nd_bad_date:
  "normalize_dates (example_params\<lparr>start_date := Present ''2023-13-45''\<rparr>) =
     Inr (example_params\<lparr>start_date := Null, end_date := Present ''2023-03-31''\<rparr>)"
  by (simp add: normalize_dates_def example_params_def get_def truthy_def vd_examples store_date_def)

lemma gr_bad_date:
  "generate_response example_env (example_params\<lparr>start_date := Present ''2023-13-45''\<rparr>) [] pf bm =
     \<lparr>out_response = ''Computed analytics for Growth Plus: '',
      out_results = Some example_json, out_reset = True,
      out_calls = [\<lparr>q_portfolio_name = Some ''Growth Plus'', q_benchmark_name = None,
         q_risk_free_portfolio_name = Some ''Secure Income'',
         q_start_date = None, q_end_date = Some ''2023-03-31'',
         q_metrics = Some [''sharpe_ratio'', ''volatility'']\<rparr>]\<rparr>"
  unfolding generate_response_def nd_bad_date
  by (simp add: example_env_def example_params_def query_params_def get_def truthy_def if_truthy_def fmt_opt_def)

lemma chat_bad_date:
  "chat example_env (example_params\<lparr>start_date := Present ''2023-13-45''\<rparr>) =
     Inr \<lparr>response = ''Sharpe ratio is 1.500000; Volatility is 0.017078'',
          parameters = None, results = Some example_json, reset_history = False\<rparr>"
  unfolding chat_Inr [OF cm_bad_date] gr_bad_date by (simp add: fm_example)

subsection \<open>The response of a turn\<close>

lemma invalid_start_date_is_dropped:
  assumes s: "start_date p = Present d" "d \<noteq> []" "validate_date d = Inr None"
    and e: "\<not> truthy (get (end_date p))"
  shows "normalize_dates p = Inr (p\<lparr>start_date := Null\<rparr>)"
    and "out_calls (generate_response ev p [] pf bm) = [query_params (p\<lparr>start_date := Null\<rparr>)]"
    and "q_start_date (query_params (p\<lparr>start_date := Null\<rparr>)) = None"
proof -
  show n: "normalize_dates p = Inr (p\<lparr>start_date := Null\<rparr>)"
    using s e by (simp add: normalize_dates_def get_def truthy_def store_date_def)
  show "out_calls (generate_response ev p [] pf bm) = [query_params (p\<lparr>start_date := Null\<rparr>)]"
    unfolding generate_response_def n
    by (simp split: backend_reply.splits sum.splits field.splits)
  show "q_start_date (query_params (p\<lparr>start_date := Null\<rparr>)) = None"
    by (simp add: query_params_def get_def if_truthy_def truthy_def)
qed

lemma chat_reset_False:
  assumes "chat ev p = Inr r"
  shows "reset_history r = False"
proof -
  from assms obtain ms where ms: "chat_missing (get_portfolios ev) (get_benchmarks ev) p = Inr ms"
    using chat_Inr_iff [of ev p] by blast
  from chat_Inr [OF ms] assms show ?thesis by auto
qed

lemma generate_response_success:
  assumes "normalize_dates p = Inr p'" "analytics_api ev (query_params p') = Reply 200 body (Inr res)"
    "portfolio_name p' \<noteq> Absent"
  shows "out_reset (generate_response ev p [] pf bm)"
    and "out_results (generate_response ev p [] pf bm) = Some res"
  using assms by (simp_all add: generate_response_def split: field.splits)

lemma chat_response_text:
  assumes "chat ev p = Inr r" "results r = Some res"
  shows "response r = join ''; '' (map format_metric (json_results res))"
proof -
  from assms(1) obtain ms where ms: "chat_missing (get_portfolios ev) (get_benchmarks ev) p = Inr ms"
    using chat_Inr_iff [of ev p] by blast
  from chat_Inr [OF ms] assms show ?thesis by auto
qed

lemma chat_parameters:
  assumes "chat_missing (get_portfolios ev) (get_benchmarks ev) p = Inr ms"
  shows "\<exists>r. chat ev p = Inr r \<and> parameters r = (if ms \<noteq> [] then Some p else None)"
  using chat_Inr [OF assms] by simp

lemma chat_parameters_conv:
  assumes "chat ev p = Inr r"
  shows "\<exists>ms. chat_missing (get_portfolios ev) (get_benchmarks ev) p = Inr ms \<and>
     parameters r = (if ms \<noteq> [] then Some p else None)"
proof -
  from assms obtain ms where ms: "chat_missing (get_portfolios ev) (get_benchmarks ev) p = Inr ms"
    using chat_Inr_iff [of ev p] by blast
  from chat_Inr [OF ms] assms have "parameters r = (if ms \<noteq> [] then Some p else None)" by auto
  with ms show ?thesis by blast
qed

lemma chat_typo:
  "chat example_env (example_params\<lparr>portfolio_name := Present ''Growth Plu''\<rparr>) =
     Inr \<lparr>response = ''I need the following information to compute: Portfolio Name. Available portfolios: Growth Plus, Global Dividend, Secure Income, Global Macro Opportunities. '',
          parameters = Some (example_params\<lparr>portfolio_name := Present ''Growth Plu''\<rparr>),
          results = None, reset_history = False\<rparr>"
  by code_simp

text \<open>
  C1 (amended).  The response of the chat endpoint never has \<^verbatim>\<open>reset_history\<close> true.
  On a turn with an empty missing-field set whose dates normalize without an exception,
  whose portfolio key is there and whose backend call returns status 200 with a decoded
  body, the response composer does return the reset flag true together with the results;
  the chat endpoint then empties its own copy of the request and sets the flag back to
  false before it builds the response.
\<close>

theorem chat_reset_history_always_false:
  "(chat ev p = Inr r \<longrightarrow> reset_history r = False) \<and>
   (normalize_dates p = Inr p' \<and> analytics_api ev (query_params p') = Reply 200 body (Inr res) \<and>
      portfolio_name p' \<noteq> Absent \<longrightarrow>
      out_reset (generate_response ev p [] pf bm) \<and>
      out_results (generate_response ev p [] pf bm) = Some res)"
  using chat_reset_False [of ev p r] generate_response_success [of p p' ev body res pf bm]
  by blast

theorem chat_reset_history_always_false_witness:
  "chat example_env example_params =
     Inr \<lparr>response = ''Sharpe ratio is 1.500000; Volatility is 0.017078'',
          parameters = None, results = Some example_json, reset_history = False\<rparr> \<and>
   normalize_dates example_params =
     Inr (example_params\<lparr>start_date := Present ''2023-01-31'', end_date := Present ''2023-03-31''\<rparr>) \<and>
   analytics_api example_env
     (query_params (example_params\<lparr>start_date := Present ''2023-01-31'', end_date := Present ''2023-03-31''\<rparr>))
     = Reply 200 [] (Inr example_json) \<and>
   portfolio_name (example_params\<lparr>start_date := Present ''2023-01-31'', end_date := Present ''2023-03-31''\<rparr>)
     \<noteq> Absent \<and>
   out_reset (generate_response example_env example_params [] [] []) \<and>
   out_results (generate_response example_env example_params [] [] []) = Some example_json"
proof -
  have a: "analytics_api example_env
     (query_params (example_params\<lparr>start_date := Present ''2023-01-31'', end_date := Present ''2023-03-31''\<rparr>))
     = Reply 200 [] (Inr example_json)"
    by (simp add: example_env_def)
  have b: "portfolio_name (example_params\<lparr>start_date := Present ''2023-01-31'', end_date := Present ''2023-03-31''\<rparr>)
     \<noteq> Absent"
    by (simp add: example_params_def)
  note t = chat_reset_history_always_false [of example_env example_params
      "\<lparr>response = ''Sharpe ratio is 1.500000; Volatility is 0.017078'',
          parameters = None, results = Some example_json, reset_history = False\<rparr>"
      "example_params\<lparr>start_date := Present ''2023-01-31'', end_date := Present ''2023-03-31''\<rparr>"
      "[]" example_json "[]" "[]"]
  from t chat_example nd_example a b show ?thesis by blast
qed

theorem chat_reset_history_counterexample:
  "chat_missing (get_portfolios example_env) (get_benchmarks example_env) example_params = Inr [] \<and>
   analytics_api example_env
     (query_params (example_params\<lparr>start_date := Present ''2023-01-31'', end_date := Present ''2023-03-31''\<rparr>))
     = Reply 200 [] (Inr example_json) \<and>
   chat example_env example_params =
     Inr \<lparr>response = ''Sharpe ratio is 1.500000; Volatility is 0.017078'',
          parameters = None, results = Some example_json, reset_history = False\<rparr>"
  using cm_example chat_example by (simp add: example_env_def)

text \<open>
  C2.  A start date that is not a date of the calendar does not fail the turn: the
  normalizer returns \<^verbatim>\<open>None\<close>, the result is stored without a check, and the
  computation backend is called with the start date left out.  With the malformed start
  date \<^verbatim>\<open>2023-13-45\<close> in an otherwise complete request, nothing is missing, one query
  goes to the backend without a start date, and the turn answers with computed results.
  (\<open>invalid_start_date_is_dropped\<close> shows the dropped start date for every such request.)
\<close>

theorem invalid_date_still_calls_backend:
  "validate_date ''2023-13-45'' = Inr None \<and>
   chat_missing (get_portfolios example_env) (get_benchmarks example_env)
     (example_params\<lparr>start_date := Present ''2023-13-45''\<rparr>) = Inr [] \<and>
   generate_response example_env (example_params\<lparr>start_date := Present ''2023-13-45''\<rparr>) []
       (get_portfolios example_env) (get_benchmarks example_env) =
     \<lparr>out_response = ''Computed analytics for Growth Plus: '',
      out_results = Some example_json, out_reset = True,
      out_calls = [\<lparr>q_portfolio_name = Some ''Growth Plus'', q_benchmark_name = None,
         q_risk_free_portfolio_name = Some ''Secure Income'',
         q_start_date = None, q_end_date = Some ''2023-03-31'',
         q_metrics = Some [''sharpe_ratio'', ''volatility'']\<rparr>]\<rparr> \<and>
   chat example_env (example_params\<lparr>start_date := Present ''2023-13-45''\<rparr>) =
     Inr \<lparr>response = ''Sharpe ratio is 1.500000; Volatility is 0.017078'',
          parameters = None, results = Some example_json, reset_history = False\<rparr>"
  using vd_examples(3) cm_bad_date gr_bad_date chat_bad_date by blast

text \<open>
  C4.  When the extracted parameters hold \<^verbatim>\<open>null\<close> under the key \<^verbatim>\<open>metrics\<close>, the
  completeness check does not report \<^verbatim>\<open>metrics\<close> as missing: it iterates over
  \<^verbatim>\<open>None\<close>, \<^verbatim>\<open>TypeError\<close> is raised, and the chat endpoint has no response.
  (For every other record, \<open>chat_missing_spec\<close> shows that the missing fields are the
  specified set, without duplicates.)
\<close>

theorem null_metrics_raises_TypeError:
  "check_completeness (example_params\<lparr>metrics := Null\<rparr>) =
     Inl (TypeError not_iterable) \<and>
   chat example_env (example_params\<lparr>metrics := Null\<rparr>) =
     Inl (TypeError not_iterable)"
  by (simp add: check_completeness_Null chat_Null)

text \<open>
  C9 (amended).  On every turn that returns results, the response text is the sentences of
  the computed metrics joined by \<^verbatim>\<open>"; "\<close>, one for each entry of the results in their
  order: the metric name with underscores replaced by spaces, its first character in upper
  case and all other characters in lower case, then \<^verbatim>\<open>" is "\<close>, then the number with six
  decimals, or the value as it is when it is not a number.
\<close>

theorem chat_response_rendering:
  "(chat ev p = Inr r \<and> results r = Some res \<longrightarrow>
      response r = join ''; '' (map format_metric (json_results res))) \<and>
   format_metric (key, JNumber v) = capitalize (replace_underscores key) @ '' is '' @ format_6f v \<and>
   format_metric (key, JOther s) = capitalize (replace_underscores key) @ '' is '' @ s \<and>
   capitalize (c # cs) = to_upper c # map to_lower cs \<and>
   capitalize (replace_underscores ''sharpe_ratio'') = ''Sharpe ratio''"
  using chat_response_text [of ev p r res] cap1
  by (simp add: format_metric_def capitalize_def)

theorem chat_response_rendering_witness:
  "chat example_env example_params =
     Inr \<lparr>response = ''Sharpe ratio is 1.500000; Volatility is 0.017078'',
          parameters = None, results = Some example_json, reset_history = False\<rparr> \<and>
   results \<lparr>response = ''Sharpe ratio is 1.500000; Volatility is 0.017078'',
          parameters = None, results = Some example_json, reset_history = False\<rparr> = Some example_json \<and>
   response \<lparr>response = ''Sharpe ratio is 1.500000; Volatility is 0.017078'',
          parameters = None, results = Some example_json, reset_history = False\<rparr> =
     join ''; '' (map format_metric (json_results example_json))"
proof -
  note t = chat_response_rendering [of example_env example_params
      "\<lparr>response = ''Sharpe ratio is 1.500000; Volatility is 0.017078'',
          parameters = None, results = Some example_json, reset_history = False\<rparr>" example_json]
  have r: "results \<lparr>response = ''Sharpe ratio is 1.500000; Volatility is 0.017078'',
          parameters = None, results = Some example_json, reset_history = False\<rparr> = Some example_json"
    by simp
  from t chat_example r show ?thesis by blast
qed

theorem chat_response_title_case_counterexample:
  "chat example_env example_params =
     Inr \<lparr>response = ''Sharpe ratio is 1.500000; Volatility is 0.017078'',
          parameters = None, results = Some example_json, reset_history = False\<rparr> \<and>
   join ''; '' (map spec_format_metric (json_results example_json)) =
     ''Sharpe Ratio is 1.500000; Volatility is 0.017078''"
  using chat_example spec_fm_example by blast

text \<open>
  C10.  Whenever the chat endpoint answers, the parameters of the response are the
  extracted parameters if the missing-field set of the turn is not empty, and are absent if
  it is empty; and the endpoint answers whenever the missing-field set can be computed.
\<close>

theorem chat_parameters_iff_missing:
  "(chat ev p = Inr r \<longrightarrow>
      (\<exists>ms. chat_missing (get_portfolios ev) (get_benchmarks ev) p = Inr ms \<and>
            parameters r = (if ms \<noteq> [] then Some p else None))) \<and>
   (chat_missing (get_portfolios ev) (get_benchmarks ev) p = Inr ms \<longrightarrow>
      (\<exists>r. chat ev p = Inr r \<and> parameters r = (if ms \<noteq> [] then Some p else None)))"
  using chat_parameters_conv [of ev p r] chat_parameters [of ev p ms] by blast

theorem chat_parameters_iff_missing_witness:
  "chat example_env (example_params\<lparr>portfolio_name := Present ''Growth Plu''\<rparr>) =
     Inr \<lparr>response = ''I need the following information to compute: Portfolio Name. Available portfolios: Growth Plus, Global Dividend, Secure Income, Global Macro Opportunities. '',
          parameters = Some (example_params\<lparr>portfolio_name := Present ''Growth Plu''\<rparr>),
          results = None, reset_history = False\<rparr> \<and>
   chat_missing (get_portfolios example_env) (get_benchmarks example_env)
     (example_params\<lparr>portfolio_name := Present ''Growth Plu''\<rparr>) = Inr [''portfolio_name''] \<and>
   (\<exists>r. chat example_env (example_params\<lparr>portfolio_name := Present ''Growth Plu''\<rparr>) = Inr r \<and>
        parameters r = Some (example_params\<lparr>portfolio_name := Present ''Growth Plu''\<rparr>)) \<and>
   chat example_env example_params =
     Inr \<lparr>response = ''Sharpe ratio is 1.500000; Volatility is 0.017078'',
          parameters = None, results = Some example_json, reset_history = False\<rparr> \<and>
   chat_missing (get_portfolios example_env) (get_benchmarks example_env) example_params = Inr [] \<and>
   (\<exists>r. chat example_env example_params = Inr r \<and> parameters r = None)"
proof -
  note t1 = chat_parameters_iff_missing [of example_env
      "example_params\<lparr>portfolio_name := Present ''Growth Plu''\<rparr>"
      "\<lparr>response = ''I need the following information to compute: Portfolio Name. Available portfolios: Growth Plus, Global Dividend, Secure Income, Global Macro Opportunities. '',
          parameters = Some (example_params\<lparr>portfolio_name := Present ''Growth Plu''\<rparr>),
          results = None, reset_history = False\<rparr>"
      "[''portfolio_name'']"]
  note t2 = chat_parameters_iff_missing [of example_env example_params
      "\<lparr>response = ''Sharpe ratio is 1.500000; Volatility is 0.017078'',
          parameters = None, results = Some example_json, reset_history = False\<rparr>" "[]"]
  from t1 cm_typo have 1:
    "\<exists>r. chat example_env (example_params\<lparr>portfolio_name := Present ''Growth Plu''\<rparr>) = Inr r \<and>
        parameters r = Some (example_params\<lparr>portfolio_name := Present ''Growth Plu''\<rparr>)"
    by simp
  from t2 cm_example have 2: "\<exists>r. chat example_env example_params = Inr r \<and> parameters r = None"
    by simp
  from 1 2 chat_typo cm_typo chat_example cm_example show ?thesis by blast
qed

end
